theory Spec2Isabelle
  imports Complex_Main "HOL-Library.Multiset"
begin

section \<open>Process demo (assignment1.py): shallow embedding\<close>

text \<open>
  The program forks children, reaps them with \<^verbatim>\<open>os.wait\<close>, shows zombie and orphan
  processes, inspects \<^verbatim>\<open>/proc\<close> and ranks CPU-bound children by measured duration.
  Python exceptions are values of \<open>error\<close>; a function that can raise returns
  \<open>error + 'a\<close>.
\<close>

datatype error =
    ZeroDivisionError
  | IndexError
  | ValueError
  | FileNotFoundError
  | OSError
  | ChildProcessError

subsection \<open>cpu_work\<close>

text \<open>
  \<^verbatim>\<open>range(a, b)\<close> on Python integers: \<open>a, a+1, ..., b-1\<close>, empty when \<open>b \<le> a\<close>.
\<close>

definition py_range :: "int \<Rightarrow> int \<Rightarrow> int list" where
  "py_range a b = [a..b - 1]"

text \<open>
  Python's \<^verbatim>\<open>%\<close> on integers is the floored remainder (as \<open>mod\<close> on \<open>int\<close>) and raises
  ZeroDivisionError on a zero divisor, where HOL's \<open>mod\<close> would return the dividend.
\<close>

definition py_mod :: "int \<Rightarrow> int \<Rightarrow> error + int" where
  "py_mod a b = (if b = 0 then Inl ZeroDivisionError else Inr (a mod b))"

text \<open>
  The body of the loop \<^verbatim>\<open>for i in range(1, iterations): s += (i * i) % (i + 1)\<close>,
  over the remaining values of \<open>i\<close> and the accumulator \<open>s\<close>.
\<close>

fun cpu_loop :: "int list \<Rightarrow> int \<Rightarrow> error + int" where
  "cpu_loop [] s = Inr s"
| "cpu_loop (i # is) s =
     (case py_mod (i * i) (i + 1) of
        Inl e \<Rightarrow> Inl e
      | Inr r \<Rightarrow> cpu_loop is (s + r))"

definition cpu_work :: "int \<Rightarrow> error + int" where
  "cpu_work iterations = cpu_loop (py_range 1 iterations) 0"

subsection \<open>main: dispatch on the parsed arguments\<close>

text \<open>
  The namespace returned by \<^verbatim>\<open>parser.parse_args()\<close>. \<^verbatim>\<open>--mode\<close> and \<^verbatim>\<open>--pid\<close> have no default,
  so they are \<open>None\<close> when absent.
\<close>

record cli_args =
  args_task :: int
  args_n :: int
  args_cmd :: string
  args_use_exec :: bool
  args_mode :: "string option"
  args_pid :: "int option"

text \<open>What \<^verbatim>\<open>main\<close> does after parsing: the task function it calls, or \<^verbatim>\<open>sys.exit\<close>.\<close>

datatype main_msg =
    RequiresPosix
  | Task3RequiresMode
  | Task4RequiresPid

datatype dispatch =
    CallTask1 int
  | CallTask2 int string bool
  | CallTask3 string
  | CallTask4 int
  | CallTask5 int
  | SysExit main_msg int
  | NoTask

text \<open>
  \<open>posix\<close> is the value of \<^verbatim>\<open>os.name == "posix"\<close>. The guards \<^verbatim>\<open>not args.mode\<close> and
  \<^verbatim>\<open>not args.pid\<close> are truthiness tests: \<open>None\<close>, the empty string and the integer 0
  are all false.
\<close>

definition main :: "bool \<Rightarrow> cli_args \<Rightarrow> dispatch" where
  "main posix args =
     (if \<not> posix then SysExit RequiresPosix 1
      else if args_task args = 1 then CallTask1 (args_n args)
      else if args_task args = 2 then
        CallTask2 (args_n args) (args_cmd args) (args_use_exec args)
      else if args_task args = 3 then
        (case args_mode args of
           None \<Rightarrow> SysExit Task3RequiresMode 1
         | Some m \<Rightarrow> if m = [] then SysExit Task3RequiresMode 1 else CallTask3 m)
      else if args_task args = 4 then
        (case args_pid args of
           None \<Rightarrow> SysExit Task4RequiresPid 1
         | Some p \<Rightarrow> if p = 0 then SysExit Task4RequiresPid 1 else CallTask4 p)
      else if args_task args = 5 then CallTask5 (args_n args)
      else NoTask)"

subsection \<open>Strings\<close>

text \<open>
  A Python \<^verbatim>\<open>str\<close> is modelled as a \<open>string\<close> whose characters are the code points
  below 256. \<^verbatim>\<open>str.isspace\<close> on those code points: TAB, LF, VT, FF, CR, the separators
  0x1C to 0x1F, SPACE, NEL (0x85) and NBSP (0xA0).
\<close>

definition py_isspace :: "char \<Rightarrow> bool" where
  "py_isspace c =
     (let k = (of_char c :: nat)
      in (9 \<le> k \<and> k \<le> 13) \<or> (28 \<le> k \<and> k \<le> 32) \<or> k = 133 \<or> k = 160)"

text \<open>
  \<^verbatim>\<open>s.split()\<close> without a separator: the maximal runs of non-whitespace characters, in
  order; no empty strings. \<open>cur\<close> is the current run, reversed.
\<close>

fun split_ws_from :: "string \<Rightarrow> string \<Rightarrow> string list" where
  "split_ws_from [] cur = (if cur = [] then [] else [rev cur])"
| "split_ws_from (c # cs) cur =
     (if py_isspace c
      then (if cur = [] then split_ws_from cs [] else rev cur # split_ws_from cs [])
      else split_ws_from cs (c # cur))"

definition split_ws :: "string \<Rightarrow> string list" where
  "split_ws s = split_ws_from s []"

text \<open>
  \<^verbatim>\<open>s.split(",")\<close> with an explicit separator: every occurrence splits, empty fields are
  kept, and the empty string gives one empty field.
\<close>

fun split_on :: "char \<Rightarrow> string \<Rightarrow> string list" where
  "split_on sep [] = [[]]"
| "split_on sep (c # cs) =
     (if c = sep then [] # split_on sep cs
      else (case split_on sep cs of
              [] \<Rightarrow> [[c]]
            | f # fs \<Rightarrow> (c # f) # fs))"

text \<open>\<^verbatim>\<open>s.strip()\<close>: whitespace removed at both ends.\<close>

definition strip :: "string \<Rightarrow> string" where
  "strip s = rev (dropWhile py_isspace (rev (dropWhile py_isspace s)))"

subsection \<open>Output lines\<close>

text \<open>
  One constructor for each \<^verbatim>\<open>print\<close> of the program, with the values its f-string
  interpolates.
\<close>

datatype msg =
    ParentStarting int int
  | ChildHello int int int
  | ParentReaped int int int
  | AllReaped int
  | Task2Creating int int string bool
  | ChildExecuting int int string
  | ExecFailed int string
  | SubprocessError int error
  | Task2Reaped int int int
  | Task2Complete
  | Task3Banner int string
  | ZombieChildExiting int
  | OrphanChildRunning int
  | OrphanChildWorking int int int
  | OrphanChildDone int int
  | ChildUnknownMode
  | ZombieParentSleeping int int
  | ZombieParentReaping int int
  | ZombieParentReaped int int int
  | NoChildToWaitFor
  | OrphanParentExiting int int
  | ParentUnknownMode
  | Task5Spawning int int
  | NiceDenied int
  | ChildDone int int real
  | Task5Reaped int int
  | ResultsHeader
  | MalformedResult int
  | TableHeader
  | TableRow int int real
  | Interpretation

subsection \<open>Processes: fork, wait, waitpid\<close>

text \<open>
  What the calling process does that can be seen from outside, in order: the lines it
  prints and its calls of \<^verbatim>\<open>os.fork\<close> (with the new child's pid), \<^verbatim>\<open>os.wait\<close> and \<^verbatim>\<open>os.waitpid\<close>
  (with the pid and status returned) and \<^verbatim>\<open>time.sleep\<close> (seconds).
\<close>

datatype event =
    EvPrint msg
  | EvFork int
  | EvWait int int
  | EvWaitpid int int
  | EvSleep nat

text \<open>
  How a forked child ends: \<^verbatim>\<open>os._exit(c)\<close>; its image is replaced by \<^verbatim>\<open>os.execvp\<close> and the
  new program ends with a raw wait status, or never ends (\<open>None\<close>); an exception leaves
  the task function uncaught, and the interpreter prints the traceback and exits with
  code 1; or the child never ends.
\<close>

datatype child_end =
    Exit int
  | Replaced "int option"
  | Uncaught error
  | Hang

text \<open>
  What one child does: its lines on stdout and stderr, the increment it passes to
  \<^verbatim>\<open>os.nice\<close> (\<open>None\<close>: it does not call it), the text it leaves in its result
  file \<^verbatim>\<open>/tmp/process_demo_child_<own pid>.txt\<close> (\<open>None\<close>: the file is not touched), and how
  it ends.
\<close>

record child_run =
  c_out :: "msg list"
  c_err :: "msg list"
  c_nice :: "int option"
  c_file :: "string option"
  c_end :: child_end

text \<open>
  The raw status \<^verbatim>\<open>os.wait\<close> reports for a child: exit code \<open>c\<close> is reported as
  \<open>(c mod 256) * 256\<close>. \<open>None\<close>: the child never terminates.
\<close>

fun wait_status :: "child_end \<Rightarrow> int option" where
  "wait_status (Exit c) = Some ((c mod 256) * 256)"
| "wait_status (Replaced st) = st"
| "wait_status (Uncaught e) = Some 256"
| "wait_status Hang = None"

text \<open>A result file: readable text, or a file whose \<^verbatim>\<open>read_text\<close> raises.\<close>

datatype result_file = Content string | Unreadable

text \<open>
  The calling process and what the operating system will answer it:
  \<^item> \<open>self_pid\<close>: \<^verbatim>\<open>os.getpid()\<close>;
  \<^item> \<open>sigchld_ignored\<close>: whether the process runs with SIGCHLD ignored, a disposition it
    inherits from the program that started it. Terminated children are then discarded
    by the system and there is nothing to reap;
  \<^item> \<open>procs\<close>: its children not yet reaped, each with the raw status it terminates with
    (\<open>None\<close>: it never terminates);
  \<^item> \<open>forks\<close>: the answers to the coming \<^verbatim>\<open>os.fork\<close> calls, in order: the new child's pid, or
    \<open>None\<close> when fork fails with OSError (as it does when the list is used up);
  \<^item> \<open>picks\<close>: for each coming \<^verbatim>\<open>os.wait\<close>, which of the terminated children is delivered
    (the order in which children terminate is the scheduler's choice);
  \<^item> \<open>files\<close>: the result files under \<^verbatim>\<open>/tmp\<close>, by the pid in their name;
  \<^item> \<open>trace\<close>: what this process has done so far.
  A child runs concurrently with its parent; the model records the whole run of a child
  at the fork that creates it. The parent looks at a child's status only through
  \<^verbatim>\<open>os.wait\<close>, and at the result files only after its wait loop.
\<close>

record world =
  self_pid :: int
  sigchld_ignored :: bool
  procs :: "(int \<times> int option) list"
  forks :: "int option list"
  picks :: "nat list"
  files :: "int \<rightharpoonup> result_file"
  trace :: "event list"

text \<open>
  What a call made in the parent comes to: it returns, it raises, it blocks for ever in a
  wait, or the process leaves through \<^verbatim>\<open>os._exit\<close>.
\<close>

datatype 'a outcome =
    Returns 'a
  | Raises error
  | Blocks
  | Exits int

definition say :: "msg \<Rightarrow> world \<Rightarrow> world" where
  "say m w = w\<lparr>trace := trace w @ [EvPrint m]\<rparr>"

definition os_sleep :: "nat \<Rightarrow> world \<Rightarrow> world" where
  "os_sleep secs w = w\<lparr>trace := trace w @ [EvSleep secs]\<rparr>"

text \<open>
  \<^verbatim>\<open>os.fork()\<close> on the parent's side. \<open>child\<close> is the child branch of the caller, as a function
  of the child's pid.
\<close>

definition os_fork :: "(int \<Rightarrow> child_run) \<Rightarrow> world \<Rightarrow> error + (int \<times> world)" where
  "os_fork child w =
     (case forks w of
        [] \<Rightarrow> Inl OSError
      | None # rest \<Rightarrow> Inl OSError
      | Some p # rest \<Rightarrow>
          (let r = child p
           in Inr (p, w\<lparr>forks := rest,
                        procs := procs w @ [(p, wait_status (c_end r))],
                        files := (case c_file r of
                                    None \<Rightarrow> files w
                                  | Some txt \<Rightarrow> (files w)(p \<mapsto> Content txt)),
                        trace := trace w @ [EvFork p]\<rparr>)))"

definition terminated :: "(int \<times> int option) \<Rightarrow> bool" where
  "terminated c = (snd c \<noteq> None)"

text \<open>
  \<^verbatim>\<open>os.wait()\<close>: ChildProcessError without children. With SIGCHLD ignored it blocks until
  all children have terminated and then raises ChildProcessError. Otherwise it blocks
  until some child has terminated and returns that child's pid and status, removing it
  from the table.
\<close>

definition os_wait :: "world \<Rightarrow> ((int \<times> int) \<times> world) outcome" where
  "os_wait w =
     (if procs w = [] then Raises ChildProcessError
      else if sigchld_ignored w then
        (if list_all terminated (procs w) then Raises ChildProcessError else Blocks)
      else
        (case filter terminated (procs w) of
           [] \<Rightarrow> Blocks
         | d # ds \<Rightarrow>
             (let k = (case picks w of [] \<Rightarrow> 0 | c # _ \<Rightarrow> c mod length (d # ds));
                  z = (d # ds) ! k
              in Returns ((fst z, the (snd z)),
                          w\<lparr>procs := remove1 z (procs w), picks := tl (picks w),
                            trace := trace w @ [EvWait (fst z) (the (snd z))]\<rparr>))))"

text \<open>
  \<^verbatim>\<open>os.waitpid(pid, 0)\<close>: waits for this one child. With SIGCHLD ignored the child's status
  is gone once it has terminated, and the call raises ChildProcessError.
\<close>

definition os_waitpid :: "int \<Rightarrow> world \<Rightarrow> ((int \<times> int) \<times> world) outcome" where
  "os_waitpid pid w =
     (case map_of (procs w) pid of
        None \<Rightarrow> Raises ChildProcessError
      | Some None \<Rightarrow> Blocks
      | Some (Some st) \<Rightarrow>
          if sigchld_ignored w then Raises ChildProcessError
          else Returns ((pid, st), w\<lparr>procs := remove1 (pid, Some st) (procs w),
                                      trace := trace w @ [EvWaitpid pid st]\<rparr>))"

text \<open>
  The fork loop shared by tasks 1, 2 and 5:
  \<^verbatim>\<open>for i in range(n): pid = os.fork(); if pid == 0: <child i> else: children.append(pid)\<close>.
  Every child branch ends the child, so only the parent continues the loop.
\<close>

fun spawn_loop ::
  "(int \<Rightarrow> int \<Rightarrow> child_run) \<Rightarrow> int list \<Rightarrow> world \<Rightarrow> int list \<Rightarrow> error + (int list \<times> world)"
where
  "spawn_loop child [] w children = Inr (children, w)"
| "spawn_loop child (i # is) w children =
     (case os_fork (child i) w of
        Inl e \<Rightarrow> Inl e
      | Inr (pid, w') \<Rightarrow> spawn_loop child is w' (children @ [pid]))"

text \<open>
  The wait loop shared by tasks 1, 2 and 5:
  \<^verbatim>\<open>for _ in children: wpid, status = os.wait(); print(...)\<close>. \<open>recs\<close> collects the
  \<open>(pid, status)\<close> pairs in the order they are reaped; \<open>line\<close> is the printed line.
\<close>

fun reap_loop ::
  "(int \<Rightarrow> int \<Rightarrow> int \<Rightarrow> msg) \<Rightarrow> int list \<Rightarrow> world \<Rightarrow> (int \<times> int) list \<Rightarrow>
     ((int \<times> int) list \<times> world) outcome"
where
  "reap_loop line [] w recs = Returns (recs, w)"
| "reap_loop line (c # cs) w recs =
     (case os_wait w of
        Returns ((wpid, status), w') \<Rightarrow>
          reap_loop line cs (say (line (self_pid w') wpid status) w') (recs @ [(wpid, status)])
      | Raises e \<Rightarrow> Raises e
      | Blocks \<Rightarrow> Blocks
      | Exits x \<Rightarrow> Exits x)"

subsection \<open>Task 1\<close>

definition task1_child :: "int \<Rightarrow> int \<Rightarrow> int \<Rightarrow> child_run" where
  "task1_child ppid i pid =
     \<lparr>c_out = [ChildHello pid ppid i], c_err = [], c_nice = None, c_file = None, c_end = Exit 0\<rparr>"

text \<open>
  The parent's side of \<^verbatim>\<open>task1_create_children\<close>. It returns the list \<open>children\<close> and the
  reaped \<open>(pid, status)\<close> pairs besides the world.
\<close>

definition task1_create_children ::
  "int \<Rightarrow> world \<Rightarrow> (int list \<times> (int \<times> int) list \<times> world) outcome"
where
  "task1_create_children n w =
     (let w0 = say (ParentStarting (self_pid w) n) w
      in case spawn_loop (task1_child (self_pid w)) (py_range 0 n) w0 [] of
           Inl e \<Rightarrow> Raises e
         | Inr (children, w1) \<Rightarrow>
             (case reap_loop ParentReaped children w1 [] of
                Returns (recs, w2) \<Rightarrow> Returns (children, recs, say (AllReaped (self_pid w2)) w2)
              | Raises e \<Rightarrow> Raises e
              | Blocks \<Rightarrow> Blocks
              | Exits x \<Rightarrow> Exits x))"

subsection \<open>Task 2\<close>

text \<open>
  \<^verbatim>\<open>os.execvp(file, args)\<close> either replaces the process image (the new program's raw wait
  status, \<open>None\<close> when it never ends) or raises. \<^verbatim>\<open>subprocess.run(cmd, shell=True)\<close>
  returns, raises, or never returns.
\<close>

datatype exec_result = ExecReplaced "int option" | ExecRaises error

datatype run_result = RunReturns | RunRaises error | RunHangs

text \<open>
  The child branch of \<^verbatim>\<open>task2_exec_children\<close>. \<^verbatim>\<open>args[0]\<close> on an empty list raises
  IndexError inside the \<^verbatim>\<open>try\<close>, whose handler catches FileNotFoundError only.
\<close>

definition task2_child ::
  "(string \<Rightarrow> string list \<Rightarrow> exec_result) \<Rightarrow> (string \<Rightarrow> run_result) \<Rightarrow>
     string \<Rightarrow> bool \<Rightarrow> int \<Rightarrow> int \<Rightarrow> int \<Rightarrow> child_run"
where
  "task2_child execvp run cmd use_exec ppid i pid =
     (let out = [ChildExecuting pid ppid cmd]
      in if use_exec then
           (case split_ws cmd of
              [] \<Rightarrow> \<lparr>c_out = out, c_err = [], c_nice = None, c_file = None, c_end = Uncaught IndexError\<rparr>
            | a # as \<Rightarrow>
                (case execvp a (a # as) of
                   ExecReplaced st \<Rightarrow>
                     \<lparr>c_out = out, c_err = [], c_nice = None, c_file = None, c_end = Replaced st\<rparr>
                 | ExecRaises e \<Rightarrow>
                     if e = FileNotFoundError
                     then \<lparr>c_out = out, c_err = [ExecFailed pid a], c_nice = None, c_file = None,
                            c_end = Exit 1\<rparr>
                     else \<lparr>c_out = out, c_err = [], c_nice = None, c_file = None, c_end = Uncaught e\<rparr>))
         else
           (case run cmd of
              RunReturns \<Rightarrow> \<lparr>c_out = out, c_err = [], c_nice = None, c_file = None, c_end = Exit 0\<rparr>
            | RunRaises e \<Rightarrow>
                \<lparr>c_out = out, c_err = [SubprocessError pid e], c_nice = None, c_file = None, c_end = Exit 0\<rparr>
            | RunHangs \<Rightarrow> \<lparr>c_out = out, c_err = [], c_nice = None, c_file = None, c_end = Hang\<rparr>))"


subsection \<open>Task 3\<close>

text \<open>
  The child branch of \<^verbatim>\<open>task3_zombie_or_orphan\<close>. \<open>getppid k\<close> is the answer of the
  child's \<open>k\<close>-th call of \<^verbatim>\<open>os.getppid()\<close> in the orphan loop (the parent's pid until the
  parent has gone, the adopting process's afterwards). The one-second pacing of the loop
  is not recorded.
\<close>

definition task3_child :: "string \<Rightarrow> (nat \<Rightarrow> int) \<Rightarrow> int \<Rightarrow> child_run" where
  "task3_child mode getppid pid =
     (if mode = ''zombie'' then
        \<lparr>c_out = [ZombieChildExiting pid], c_err = [], c_nice = None, c_file = None, c_end = Exit 0\<rparr>
      else if mode = ''orphan'' then
        \<lparr>c_out = [OrphanChildRunning pid]
                 @ map (\<lambda>i. OrphanChildWorking pid (i + 1) (getppid (nat i))) (py_range 0 10)
                 @ [OrphanChildDone pid (getppid 10)],
          c_err = [], c_nice = None, c_file = None, c_end = Exit 0\<rparr>
      else
        \<lparr>c_out = [ChildUnknownMode], c_err = [], c_nice = None, c_file = None, c_end = Exit 1\<rparr>)"

text \<open>
  The parent's side: the fork comes first, the mode is looked at afterwards. The result
  is how the call ends and the world at that point.
\<close>

definition task3_zombie_or_orphan ::
  "string \<Rightarrow> (nat \<Rightarrow> int) \<Rightarrow> world \<Rightarrow> unit outcome \<times> world"
where
  "task3_zombie_or_orphan mode getppid w =
     (let w0 = say (Task3Banner (self_pid w) mode) w
      in case os_fork (task3_child mode getppid) w0 of
           Inl e \<Rightarrow> (Raises e, w0)
         | Inr (pid, w1) \<Rightarrow>
             if mode = ''zombie'' then
               (let w2 = os_sleep 15 (say (ZombieParentSleeping (self_pid w1) pid) w1);
                    w3 = say (ZombieParentReaping (self_pid w2) pid) w2
                in case os_waitpid pid w3 of
                     Returns ((wpid, status), w4) \<Rightarrow>
                       (Returns (), say (ZombieParentReaped (self_pid w4) wpid status) w4)
                   | Raises e \<Rightarrow>
                       if e = ChildProcessError then (Returns (), say NoChildToWaitFor w3)
                       else (Raises e, w3)
                   | Blocks \<Rightarrow> (Blocks, w3)
                   | Exits x \<Rightarrow> (Exits x, w3))
             else if mode = ''orphan'' then
               (Exits 0, say (OrphanParentExiting (self_pid w1) pid) w1)
             else
               (Exits 1, say ParentUnknownMode w1))"

subsection \<open>Task 5\<close>

text \<open>
  The Python built-ins the result files go through, as parameters: \<^verbatim>\<open>str\<close> of an integer
  (in an f-string), the format \<^verbatim>\<open>{duration:.6f}\<close>, and \<^verbatim>\<open>int\<close> and \<^verbatim>\<open>float\<close> of a string, which
  are \<open>None\<close> where Python raises ValueError. Durations are finite floats, read as the
  real numbers they denote; a text that \<^verbatim>\<open>float\<close> turns into \<^verbatim>\<open>inf\<close> or \<^verbatim>\<open>nan\<close> is outside the
  model.
\<close>

record pylib =
  str_of_int :: "int \<Rightarrow> string"
  fmt6 :: "real \<Rightarrow> string"
  int_of_str :: "string \<Rightarrow> int option"
  float_of_str :: "string \<Rightarrow> real option"

text \<open>
  What the operating system does to one child of the experiment: whether \<^verbatim>\<open>os.nice\<close> raises
  OSError, the two readings of \<^verbatim>\<open>time.monotonic()\<close>, and whether the result file can be
  opened and written.
\<close>

datatype write_result = Written | OpenFails | WriteFails

record child_env =
  nice_denied :: bool
  t_start :: real
  t_end :: real
  wr :: write_result

definition nice_offset :: "int \<Rightarrow> int" where
  "nice_offset i = i * 5"

text \<open>The line \<^verbatim>\<open>f"{os.getpid()},{nice_offset},{duration:.6f}\n"\<close>.\<close>

definition format_record :: "pylib \<Rightarrow> int \<Rightarrow> int \<Rightarrow> real \<Rightarrow> string" where
  "format_record lib pid off duration =
     str_of_int lib pid @ '','' @ str_of_int lib off @ '','' @ fmt6 lib duration @ [CHR 0x0A]"

text \<open>
  The child branch of \<^verbatim>\<open>task5_prioritization\<close>. A denied \<^verbatim>\<open>os.nice\<close> is reported and the child
  goes on. When \<^verbatim>\<open>open\<close> fails nothing is written; when the write fails the file has been
  truncated by \<^verbatim>\<open>open(..., "w")\<close> and stays empty.
\<close>

definition task5_child :: "pylib \<Rightarrow> child_env \<Rightarrow> int \<Rightarrow> int \<Rightarrow> child_run" where
  "task5_child lib env i pid =
     (let off = nice_offset i;
          out1 = (if nice_denied env then [NiceDenied pid] else [])
      in case cpu_work 500000 of
           Inl e \<Rightarrow> \<lparr>c_out = out1, c_err = [], c_nice = Some off, c_file = None, c_end = Uncaught e\<rparr>
         | Inr work_result \<Rightarrow>
             (let duration = t_end env - t_start env;
                  out2 = out1 @ [ChildDone pid off duration]
              in case wr env of
                   OpenFails \<Rightarrow>
                     \<lparr>c_out = out2, c_err = [], c_nice = Some off, c_file = None, c_end = Uncaught OSError\<rparr>
                 | WriteFails \<Rightarrow>
                     \<lparr>c_out = out2, c_err = [], c_nice = Some off, c_file = Some [], c_end = Uncaught OSError\<rparr>
                 | Written \<Rightarrow>
                     \<lparr>c_out = out2, c_err = [], c_nice = Some off,
                       c_file = Some (format_record lib pid off duration), c_end = Exit 0\<rparr>))"

type_synonym entry = "int \<times> int \<times> real"

definition duration_of :: "entry \<Rightarrow> real" where
  "duration_of e = snd (snd e)"

text \<open>
  \<^verbatim>\<open>pid_s, nice_s, dur_s = txt.split(","); (int(pid_s), int(nice_s), float(dur_s))\<close>:
  \<open>None\<close> when the unpacking or a conversion raises (the \<^verbatim>\<open>except Exception\<close> branch).
\<close>

definition parse_entry :: "pylib \<Rightarrow> string \<Rightarrow> entry option" where
  "parse_entry lib txt =
     (case split_on (CHR '','') txt of
        [pid_s, nice_s, dur_s] \<Rightarrow>
          (case int_of_str lib pid_s of
             None \<Rightarrow> None
           | Some p \<Rightarrow>
               (case int_of_str lib nice_s of
                  None \<Rightarrow> None
                | Some k \<Rightarrow>
                    (case float_of_str lib dur_s of
                       None \<Rightarrow> None
                     | Some d \<Rightarrow> Some (p, k, d))))
      | _ \<Rightarrow> None)"

text \<open>
  The loop \<^verbatim>\<open>for pid in children:\<close> that reads the result files. A file that does not exist
  is passed over: nothing is printed and nothing is appended. \<^verbatim>\<open>read_text\<close> is outside
  the \<^verbatim>\<open>try\<close>, so a file that cannot be read ends the call. \<open>unlink pid\<close> tells whether
  \<^verbatim>\<open>pfile.unlink()\<close> succeeds; its failure is swallowed.
\<close>

fun read_results ::
  "pylib \<Rightarrow> (int \<Rightarrow> bool) \<Rightarrow> int list \<Rightarrow> world \<Rightarrow> entry list \<Rightarrow> error + (entry list \<times> world)"
where
  "read_results lib unlink [] w entries = Inr (entries, w)"
| "read_results lib unlink (pid # pids) w entries =
     (case files w pid of
        None \<Rightarrow> read_results lib unlink pids w entries
      | Some Unreadable \<Rightarrow> Inl OSError
      | Some (Content c) \<Rightarrow>
          (let txt = strip c;
               w1 = (case parse_entry lib txt of
                       None \<Rightarrow> say (MalformedResult pid) w
                     | Some e \<Rightarrow> w);
               entries1 = (case parse_entry lib txt of
                             None \<Rightarrow> entries
                           | Some e \<Rightarrow> entries @ [e]);
               w2 = (if unlink pid then w1\<lparr>files := (files w1)(pid := None)\<rparr> else w1)
           in read_results lib unlink pids w2 entries1))"

text \<open>The loop that prints the table.\<close>

fun print_table :: "entry list \<Rightarrow> world \<Rightarrow> world" where
  "print_table [] w = w"
| "print_table ((pid_s, nice_s, dur_s) # es) w =
     print_table es (say (TableRow pid_s nice_s dur_s) w)"

text \<open>
  The parent's side of \<^verbatim>\<open>task5_prioritization\<close>. \<open>envs i\<close> is what the operating system does
  to child \<open>i\<close>. The result holds \<open>children\<close>, the reaped pairs, \<open>entries\<close> before the sort
  (in insertion order) and after it. \<^verbatim>\<open>entries.sort(key=lambda x: x[2])\<close> is a stable
  ascending sort on the duration.
\<close>

definition task5_prioritization ::
  "pylib \<Rightarrow> (int \<Rightarrow> child_env) \<Rightarrow> (int \<Rightarrow> bool) \<Rightarrow> int \<Rightarrow> world \<Rightarrow>
     (int list \<times> (int \<times> int) list \<times> entry list \<times> entry list \<times> world) outcome"
where
  "task5_prioritization lib envs unlink n w =
     (let w0 = say (Task5Spawning (self_pid w) n) w
      in case spawn_loop (\<lambda>i. task5_child lib (envs i) i) (py_range 0 n) w0 [] of
           Inl e \<Rightarrow> Raises e
         | Inr (children, w1) \<Rightarrow>
             (case reap_loop (\<lambda>self. Task5Reaped) children w1 [] of
                Returns (recs, w2) \<Rightarrow>
                  (case read_results lib unlink children (say ResultsHeader w2) [] of
                     Inl e \<Rightarrow> Raises e
                   | Inr (entries, w3) \<Rightarrow>
                       (let ranked = sort_key duration_of entries;
                            w4 = print_table ranked (say TableHeader w3)
                        in Returns (children, recs, entries, ranked, say Interpretation w4)))
              | Raises e \<Rightarrow> Raises e
              | Blocks \<Rightarrow> Blocks
              | Exits x \<Rightarrow> Exits x))"

subsection \<open>Assumptions on the environment\<close>

text \<open>The next \<open>k\<close> calls of \<^verbatim>\<open>os.fork\<close> succeed, each returning a child's (positive) pid.\<close>

definition forks_succeed :: "nat \<Rightarrow> world \<Rightarrow> bool" where
  "forks_succeed k w =
     (k \<le> length (forks w) \<and> (\<forall>x \<in> set (take k (forks w)). \<exists>p. 0 < p \<and> x = Some p))"

text \<open>
  No result file exists under the pid of any of the next \<open>k\<close> children: the files the
  parent finds under those pids are the ones its children write.
\<close>

definition fresh_channel :: "nat \<Rightarrow> world \<Rightarrow> bool" where
  "fresh_channel k w = (\<forall>x \<in> set (take k (forks w)). \<forall>p. x = Some p \<longrightarrow> files w p = None)"

text \<open>\<^verbatim>\<open>time.monotonic()\<close> does not go backwards between a child's two readings.\<close>

definition monotonic_clock :: "(int \<Rightarrow> child_env) \<Rightarrow> bool" where
  "monotonic_clock envs = (\<forall>i. t_start (envs i) \<le> t_end (envs i))"

text \<open>
  Python writes a non-negative duration with \<^verbatim>\<open>{duration:.6f}\<close> as a text that \<^verbatim>\<open>float\<close> reads
  back as a non-negative number: a record line written for a non-negative duration and
  read back by the parent does not yield a negative one.
\<close>

definition roundtrip_nonneg :: "pylib \<Rightarrow> bool" where
  "roundtrip_nonneg lib =
     (\<forall>p k d e. 0 \<le> d \<longrightarrow> parse_entry lib (strip (format_record lib p k d)) = Some e
        \<longrightarrow> 0 \<le> duration_of e)"


subsection \<open>What the parent makes of a result file\<close>






text \<open>The line of the table printed for an entry.\<close>

definition table_line :: "entry \<Rightarrow> event" where
  "table_line e = EvPrint (TableRow (fst e) (fst (snd e)) (snd (snd e)))"

subsection \<open>Invariant of the result files\<close>

text \<open>
  A result file is harmless for the ranking when it is absent, or readable with a text
  that the parent either rejects or parses to an entry of non-negative duration.
\<close>

definition nonneg_file :: "pylib \<Rightarrow> result_file option \<Rightarrow> bool" where
  "nonneg_file lib f =
     (case f of
        None \<Rightarrow> True
      | Some Unreadable \<Rightarrow> False
      | Some (Content c) \<Rightarrow> (\<forall>e. parse_entry lib (strip c) = Some e \<longrightarrow> 0 \<le> duration_of e))"

text \<open>
  The result files after the children \<open>ips\<close> (sibling index and pid, in fork order) have
  run, starting from the files \<open>fs\<close>: each child that writes replaces the file under its
  own pid.
\<close>

definition files_after ::
  "(int \<Rightarrow> int \<Rightarrow> child_run) \<Rightarrow> (int \<times> int) list \<Rightarrow> (int \<rightharpoonup> result_file) \<Rightarrow> (int \<rightharpoonup> result_file)"
where
  "files_after child ips fs =
     foldl (\<lambda>g ip. case c_file (child (fst ip) (snd ip)) of
                      None \<Rightarrow> g
                    | Some s \<Rightarrow> g(snd ip \<mapsto> Content s)) fs ips"

subsection \<open>Sample environments\<close>

text \<open>
  A process with pid 100, the default handling of SIGCHLD and no children, whose next three forks give the pids 101, 102
  and 103; an \<^verbatim>\<open>execvp\<close> that finds no program; a \<^verbatim>\<open>subprocess.run\<close> that returns; and a
  child whose parent is gone (pid 1 adopts it) from its \<open>k\<close>-th \<^verbatim>\<open>os.getppid()\<close> on.
\<close>

definition demo_world :: world where
  "demo_world =
     \<lparr>self_pid = 100, sigchld_ignored = False, procs = [],
       forks = [Some 101, Some 102, Some 103], picks = [],
       files = Map.empty, trace = []\<rparr>"

definition no_such_program :: "string \<Rightarrow> string list \<Rightarrow> exec_result" where
  "no_such_program prog args = ExecRaises FileNotFoundError"

definition run_ok :: "string \<Rightarrow> run_result" where
  "run_ok cmd = RunReturns"

definition adopted_after :: "nat \<Rightarrow> int \<Rightarrow> nat \<Rightarrow> int" where
  "adopted_after k ppid j = (if j < k then ppid else 1)"

text \<open>
  A small decimal library for the sample runs: it writes integers below 1000 and
  durations below 1000 seconds (rounded to six decimals), and reads unsigned decimal
  texts, as Python does on these.
\<close>

definition digit_char :: "nat \<Rightarrow> char" where
  "digit_char k = ''0123456789'' ! k"

definition digit_val :: "char \<Rightarrow> nat" where
  "digit_val c = length (takeWhile (\<lambda>d. d \<noteq> c) ''0123456789'')"

definition is_digit :: "char \<Rightarrow> bool" where
  "is_digit c = (c \<in> set ''0123456789'')"

definition dec3 :: "nat \<Rightarrow> string" where
  "dec3 k =
     (if k < 10 then [digit_char k]
      else if k < 100 then [digit_char (k div 10), digit_char (k mod 10)]
      else [digit_char (k div 100 mod 10), digit_char (k div 10 mod 10), digit_char (k mod 10)])"

definition frac6 :: "nat \<Rightarrow> string" where
  "frac6 m = map (\<lambda>j. digit_char (m div 10 ^ j mod 10)) [5, 4, 3, 2, 1, 0]"

definition dec_value :: "string \<Rightarrow> nat" where
  "dec_value s = foldl (\<lambda>a c. 10 * a + digit_val c) 0 s"

definition demo_str_of_int :: "int \<Rightarrow> string" where
  "demo_str_of_int i = (if i < 0 then ''-'' else []) @ dec3 (nat \<bar>i\<bar>)"

definition demo_fmt6 :: "real \<Rightarrow> string" where
  "demo_fmt6 d =
     (let m = nat \<lfloor>\<bar>d\<bar> * 1000000 + 1 / 2\<rfloor>
      in (if d < 0 then ''-'' else []) @ dec3 (m div 1000000) @ ''.'' @ frac6 (m mod 1000000))"

definition demo_int_of_str :: "string \<Rightarrow> int option" where
  "demo_int_of_str s =
     (if s \<noteq> [] \<and> list_all is_digit s then Some (int (dec_value s)) else None)"

definition demo_float_of_str :: "string \<Rightarrow> real option" where
  "demo_float_of_str s =
     (case split_on (CHR ''.'') s of
        [a, b] \<Rightarrow>
          if a \<noteq> [] \<and> b \<noteq> [] \<and> list_all is_digit (a @ b)
          then Some (real (dec_value a) + real (dec_value b) / 10 ^ length b)
          else None
      | _ \<Rightarrow> None)"

definition demo_lib :: pylib where
  "demo_lib =
     \<lparr>str_of_int = demo_str_of_int, fmt6 = demo_fmt6,
       int_of_str = demo_int_of_str, float_of_str = demo_float_of_str\<rparr>"

text \<open>
  Three children: child 0 measures 0.5 s, child 1 measures 0.25 s, child 2 cannot open
  its result file and dies before writing. Every \<^verbatim>\<open>unlink\<close> succeeds.
\<close>

definition demo_envs :: "int \<Rightarrow> child_env" where
  "demo_envs i =
     \<lparr>nice_denied = False, t_start = 10,
       t_end = (if i = 0 then 10 + 1 / 2 else 10 + 1 / 4),
       wr = (if i = 2 then OpenFails else Written)\<rparr>"

definition unlink_ok :: "int \<Rightarrow> bool" where
  "unlink_ok pid = True"


section \<open>Properties\<close>

subsection \<open>cpu_work\<close>

lemma set_py_range: "set (py_range a b) = {i. a \<le> i \<and> i < b}"
  by (auto simp: py_range_def)

lemma py_mod_square: "1 \<le> i \<Longrightarrow> py_mod (i * i) (i + 1) = Inr 1"
proof -
  assume i: "1 \<le> i"
  have "i * i = (i - 1) * (i + 1) + 1"
    by (simp add: algebra_simps)
  then have "(i * i) mod (i + 1) = 1 mod (i + 1)"
    by (metis mod_mult_self3)
  with i show ?thesis
    by (simp add: py_mod_def)
qed

lemma cpu_loop_total:
  "\<forall>i \<in> set xs. 1 \<le> i \<Longrightarrow> cpu_loop xs s = Inr (s + int (length xs))"
proof (induction xs arbitrary: s)
  case Nil
  then show ?case by simp
next
  case (Cons i xs)
  then have "py_mod (i * i) (i + 1) = Inr 1"
    by (simp add: py_mod_square)
  with Cons show ?case by simp
qed

lemma cpu_work_closed_form: "cpu_work n = Inr (max 0 (n - 1))"
proof -
  have "cpu_loop (py_range 1 n) 0 = Inr (0 + int (length (py_range 1 n)))"
    by (rule cpu_loop_total) (simp add: set_py_range)
  then show ?thesis
    by (simp add: cpu_work_def py_range_def)
qed

text \<open>
  C6. \<open>cpu_work\<close> is a function of \<open>iterations\<close> alone and returns a value for every
  integer argument: no step of the loop raises. Every \<open>i\<close> of the iterated range
  \<open>range(1, iterations)\<close> has divisor \<open>i + 1 \<ge> 2\<close>, so the remainder never raises
  ZeroDivisionError.
\<close>

theorem cpu_work_total:
  "(\<exists>s. cpu_work iterations = Inr s) \<and>
   (\<forall>i \<in> set (py_range 1 iterations).
      2 \<le> i + 1 \<and> (\<exists>r. py_mod (i * i) (i + 1) = Inr r))"
proof
  show "\<exists>s. cpu_work iterations = Inr s"
    by (simp add: cpu_work_closed_form)
  show "\<forall>i \<in> set (py_range 1 iterations).
          2 \<le> i + 1 \<and> (\<exists>r. py_mod (i * i) (i + 1) = Inr r)"
    by (simp add: set_py_range py_mod_def)
qed

theorem cpu_work_total_witness:
  "3 \<in> set (py_range 1 4) \<and> (2::int) \<le> 3 + 1 \<and>
   py_mod (3 * 3) (3 + 1) = Inr 1 \<and> cpu_work 4 = Inr 3"
proof -
  have mem: "(3::int) \<in> set (py_range 1 4)"
    by (simp add: set_py_range)
  from cpu_work_total [of 4] mem
  have "(2::int) \<le> 3 + 1 \<and> (\<exists>r. py_mod (3 * 3) (3 + 1) = Inr r)"
    by blast
  then show ?thesis
    using mem by (simp add: py_mod_def cpu_work_closed_form)
qed

text \<open>
  C8. For every \<open>iterations \<le> 1\<close>, zero and negative values included, the range is empty
  and \<open>cpu_work\<close> returns the initial accumulator 0.
\<close>

theorem cpu_work_le_one: "iterations \<le> 1 \<Longrightarrow> cpu_work iterations = Inr 0"
  by (simp add: cpu_work_def py_range_def)

theorem cpu_work_le_one_witness:
  "(-3::int) \<le> 1 \<and> cpu_work (-3) = Inr 0 \<and> cpu_work 0 = Inr 0 \<and> cpu_work 1 = Inr 0"
  using cpu_work_le_one [of "-3"] cpu_work_le_one [of 0] cpu_work_le_one [of 1] by simp

subsection \<open>main\<close>

text \<open>
  C9. For task 4, \<^verbatim>\<open>--pid 0\<close> is handled as a missing \<^verbatim>\<open>--pid\<close>: the guard
  \<^verbatim>\<open>if not args.pid\<close> is a truthiness test, so \<open>main\<close> exits with status 1 in both cases,
  and no arguments at all make \<open>main\<close> call \<^verbatim>\<open>task4_inspect_proc(0)\<close>.
\<close>

theorem main_pid_zero:
  "(args_task args = 4 \<longrightarrow>
      main posix (args\<lparr>args_pid := Some 0\<rparr>) = main posix (args\<lparr>args_pid := None\<rparr>) \<and>
      (\<exists>m. main posix (args\<lparr>args_pid := Some 0\<rparr>) = SysExit m 1)) \<and>
   main posix args \<noteq> CallTask4 0"
  by (auto simp: main_def split: option.splits)

theorem main_pid_zero_witness:
  "main True \<lparr>args_task = 4, args_n = 3, args_cmd = ''ls -l'', args_use_exec = False,
      args_mode = None, args_pid = Some 0\<rparr> = SysExit Task4RequiresPid 1 \<and>
   main True \<lparr>args_task = 4, args_n = 3, args_cmd = ''ls -l'', args_use_exec = False,
      args_mode = None, args_pid = None\<rparr> = SysExit Task4RequiresPid 1 \<and>
   main True \<lparr>args_task = 4, args_n = 3, args_cmd = ''ls -l'', args_use_exec = False,
      args_mode = None, args_pid = Some 7\<rparr> = CallTask4 7"
  using main_pid_zero [of "\<lparr>args_task = 4, args_n = 3, args_cmd = ''ls -l'',
      args_use_exec = False, args_mode = None, args_pid = None\<rparr>" True]
  by (simp add: main_def)

subsection \<open>Strings\<close>

lemma split_ws_from_blank:
  "\<forall>c \<in> set s. py_isspace c \<Longrightarrow> split_ws_from s [] = []"
  by (induction s) auto

subsection \<open>The fork loop and the wait loop\<close>

lemma length_filter_remove1:
  "z \<in> set xs \<Longrightarrow> P z \<Longrightarrow> Suc (length (filter P (remove1 z xs))) = length (filter P xs)"
  by (induction xs) auto

lemma os_wait_returns:
  assumes "filter terminated (procs w) \<noteq> []" and dfl: "\<not> sigchld_ignored w"
  shows "\<exists>z. z \<in> set (procs w) \<and> terminated z \<and>
           os_wait w = Returns ((fst z, the (snd z)),
              w\<lparr>procs := remove1 z (procs w), picks := tl (picks w),
                trace := trace w @ [EvWait (fst z) (the (snd z))]\<rparr>)"
proof -
  from assms(1) obtain d ds where dd: "filter terminated (procs w) = d # ds"
    by (cases "filter terminated (procs w)") auto
  define k where "k = (case picks w of [] \<Rightarrow> 0 | c # _ \<Rightarrow> c mod length (d # ds))"
  have "k < length (d # ds)"
    by (auto simp: k_def split: list.splits)
  then have "(d # ds) ! k \<in> set (filter terminated (procs w))"
    using dd nth_mem by metis
  then have "(d # ds) ! k \<in> set (procs w)" "terminated ((d # ds) ! k)"
    by auto
  moreover have ne: "procs w \<noteq> []"
    using assms by auto
  moreover have "os_wait w = Returns ((fst ((d # ds) ! k), the (snd ((d # ds) ! k))),
              w\<lparr>procs := remove1 ((d # ds) ! k) (procs w), picks := tl (picks w),
                trace := trace w @ [EvWait (fst ((d # ds) ! k)) (the (snd ((d # ds) ! k)))]\<rparr>)"
    unfolding os_wait_def using dd ne dfl by (simp add: Let_def k_def)
  ultimately show ?thesis
    by blast
qed

lemma forks_succeed_Cons:
  "forks_succeed (Suc k) w \<Longrightarrow>
     \<exists>p rest. 0 < p \<and> forks w = Some p # rest \<and> forks_succeed k (w\<lparr>forks := rest\<rparr>)"
  by (cases "forks w") (auto simp: forks_succeed_def)

lemma os_fork_succeeds:
  "forks w = Some p # rest \<Longrightarrow>
     \<exists>w'. os_fork child w = Inr (p, w') \<and> forks w' = rest \<and>
          procs w' = procs w @ [(p, wait_status (c_end (child p)))] \<and>
          picks w' = picks w \<and> self_pid w' = self_pid w \<and>
          sigchld_ignored w' = sigchld_ignored w \<and>
          trace w' = trace w @ [EvFork p] \<and>
          files w' = (case c_file (child p) of
                        None \<Rightarrow> files w
                      | Some txt \<Rightarrow> (files w)(p \<mapsto> Content txt))"
  by (simp add: os_fork_def Let_def)

lemma spawn_loop_succeeds:
  "forks_succeed (length is) w \<Longrightarrow>
     \<exists>ps w'. spawn_loop child is w cs = Inr (cs @ ps, w') \<and> length ps = length is \<and>
       map Some ps = take (length is) (forks w) \<and>
       forks w' = drop (length is) (forks w) \<and>
       procs w' = procs w @ map (\<lambda>(i, p). (p, wait_status (c_end (child i p)))) (zip is ps) \<and>
       picks w' = picks w \<and> self_pid w' = self_pid w \<and>
       sigchld_ignored w' = sigchld_ignored w \<and>
       files w' = files_after child (zip is ps) (files w) \<and>
       trace w' = trace w @ map EvFork ps"
proof (induction "is" arbitrary: w cs)
  case Nil
  then show ?case by (simp add: files_after_def)
next
  case (Cons i "is")
  from Cons.prems obtain p rest where
    p: "forks w = Some p # rest" and rest: "forks_succeed (length is) (w\<lparr>forks := rest\<rparr>)"
    using forks_succeed_Cons by fastforce
  from os_fork_succeeds [OF p, of "child i"] obtain w1 where
    w1: "os_fork (child i) w = Inr (p, w1)" "forks w1 = rest"
      "procs w1 = procs w @ [(p, wait_status (c_end (child i p)))]"
      "picks w1 = picks w" "self_pid w1 = self_pid w"
      "sigchld_ignored w1 = sigchld_ignored w" "trace w1 = trace w @ [EvFork p]"
      "files w1 = (case c_file (child i p) of
                     None \<Rightarrow> files w
                   | Some txt \<Rightarrow> (files w)(p \<mapsto> Content txt))"
    by blast
  have "forks_succeed (length is) w1"
    using rest w1(2) by (simp add: forks_succeed_def)
  from Cons.IH [OF this, of "cs @ [p]"] obtain ps w' where
    ih: "spawn_loop child is w1 (cs @ [p]) = Inr ((cs @ [p]) @ ps, w')"
      "length ps = length is"
      "map Some ps = take (length is) (forks w1)"
      "forks w' = drop (length is) (forks w1)"
      "procs w' = procs w1 @ map (\<lambda>(i, p). (p, wait_status (c_end (child i p)))) (zip is ps)"
      "picks w' = picks w1" "self_pid w' = self_pid w1"
      "sigchld_ignored w' = sigchld_ignored w1"
      "files w' = files_after child (zip is ps) (files w1)"
      "trace w' = trace w1 @ map EvFork ps"
    by blast
  have fa: "files w' = files_after child (zip (i # is) (p # ps)) (files w)"
    by (simp add: ih(9) w1(8) files_after_def split: option.splits)
  show ?case
    using w1(1-7) ih(1-8) ih(10) p fa
    by (intro exI [of _ "p # ps"] exI [of _ w']) simp
qed

lemma reap_loop_returns:
  "length cs \<le> length (filter terminated (procs w)) \<Longrightarrow> \<not> sigchld_ignored w \<Longrightarrow>
     \<exists>zs w'. reap_loop line cs w recs =
                Returns (recs @ map (\<lambda>z. (fst z, the (snd z))) zs, w') \<and>
       length zs = length cs \<and> (\<forall>z \<in> set zs. terminated z) \<and>
       mset (procs w) = mset zs + mset (procs w') \<and>
       files w' = files w \<and> self_pid w' = self_pid w \<and> forks w' = forks w \<and>
       trace w' = trace w @
         concat (map (\<lambda>z. [EvWait (fst z) (the (snd z)),
                            EvPrint (line (self_pid w) (fst z) (the (snd z)))]) zs)"
proof (induction cs arbitrary: w recs)
  case Nil
  then show ?case by simp
next
  case (Cons c cs)
  then have "filter terminated (procs w) \<noteq> []"
    by auto
  from os_wait_returns [OF this Cons.prems(2)] obtain z where
    z: "z \<in> set (procs w)" "terminated z" and
    wt: "os_wait w = Returns ((fst z, the (snd z)),
           w\<lparr>procs := remove1 z (procs w), picks := tl (picks w),
             trace := trace w @ [EvWait (fst z) (the (snd z))]\<rparr>)"
    by blast
  define w1 where "w1 = say (line (self_pid w) (fst z) (the (snd z)))
     (w\<lparr>procs := remove1 z (procs w), picks := tl (picks w),
        trace := trace w @ [EvWait (fst z) (the (snd z))]\<rparr>)"
  have w1: "procs w1 = remove1 z (procs w)" "files w1 = files w" "self_pid w1 = self_pid w"
    "forks w1 = forks w"
    "trace w1 = trace w @ [EvWait (fst z) (the (snd z)),
                            EvPrint (line (self_pid w) (fst z) (the (snd z)))]"
    by (simp_all add: w1_def say_def)
  have dfl: "\<not> sigchld_ignored w1"
    using Cons.prems(2) by (simp add: w1_def say_def)
  have step: "reap_loop line (c # cs) w recs =
                reap_loop line cs w1 (recs @ [(fst z, the (snd z))])"
    by (simp add: wt w1_def)
  have "Suc (length (filter terminated (procs w1))) = length (filter terminated (procs w))"
    using z by (simp add: w1 length_filter_remove1)
  with Cons.prems have "length cs \<le> length (filter terminated (procs w1))"
    by simp
  from Cons.IH [OF this dfl, of "recs @ [(fst z, the (snd z))]"] obtain zs w' where
    ih: "reap_loop line cs w1 (recs @ [(fst z, the (snd z))]) =
           Returns ((recs @ [(fst z, the (snd z))]) @ map (\<lambda>z. (fst z, the (snd z))) zs, w')"
      "length zs = length cs" "\<forall>z \<in> set zs. terminated z"
      "mset (procs w1) = mset zs + mset (procs w')"
      "files w' = files w1" "self_pid w' = self_pid w1" "forks w' = forks w1"
      "trace w' = trace w1 @
         concat (map (\<lambda>z. [EvWait (fst z) (the (snd z)),
                            EvPrint (line (self_pid w1) (fst z) (the (snd z)))]) zs)"
    by blast
  have ms: "mset (procs w) = mset (z # zs) + mset (procs w')"
  proof -
    have "z \<in># mset (procs w)"
      using z(1) by simp
    then have "mset (procs w) = add_mset z (mset (procs w) - {#z#})"
      by simp
    also have "mset (procs w) - {#z#} = mset zs + mset (procs w')"
      using ih(4) by (simp add: w1(1))
    finally show ?thesis
      by simp
  qed
  show ?case
    using step ih(1-3) ih(5-) w1 ms z(2)
    by (intro exI [of _ "z # zs"] exI [of _ w']) simp
qed

text \<open>
  With SIGCHLD ignored and children that all terminate, the first wait of the loop raises
  ChildProcessError; the loops of tasks 1, 2 and 5 do not catch it.
\<close>

lemma reap_loop_sigchld_ignored:
  "sigchld_ignored w \<Longrightarrow> list_all terminated (procs w) \<Longrightarrow>
     reap_loop line (c # cs) w recs = Raises ChildProcessError"
  by (simp add: os_wait_def)

lemma length_py_range: "length (py_range 0 n) = nat n"
  by (simp add: py_range_def)

lemma map_zip_snd:
  "length xs = length ys \<Longrightarrow> map (\<lambda>(i, p). f p) (zip xs ys) = map f ys"
  by (induction xs ys rule: list_induct2) auto

lemma reaped_all:
  assumes "mset xs = mset zs + mset ys" "length zs = length xs"
  shows "mset zs = mset xs"
proof -
  have "size (mset xs) = size (mset zs) + size (mset ys)"
    using assms(1) by (metis size_union)
  then have "ys = []"
    using assms(2) by simp
  then show ?thesis
    using assms(1) by simp
qed

lemma spawn_then_reap:
  assumes fk: "forks_succeed (nat n) w" and dfl: "\<not> sigchld_ignored w"
    and fin: "\<And>i p. wait_status (c_end (child i p)) \<noteq> None"
  shows "\<exists>ps w1 zs w2.
     spawn_loop child (py_range 0 n) w [] = Inr (ps, w1) \<and>
     reap_loop line ps w1 [] = Returns (map (\<lambda>z. (fst z, the (snd z))) zs, w2) \<and>
     length ps = nat n \<and> length zs = nat n \<and>
     map Some ps = take (nat n) (forks w) \<and>
     self_pid w2 = self_pid w \<and>
     files w2 = files_after child (zip (py_range 0 n) ps) (files w) \<and>
     trace w2 = trace w @ map EvFork ps @
        concat (map (\<lambda>z. [EvWait (fst z) (the (snd z)),
                           EvPrint (line (self_pid w) (fst z) (the (snd z)))]) zs) \<and>
     (procs w = [] \<longrightarrow>
        mset zs = mset (map (\<lambda>(i, p). (p, wait_status (c_end (child i p))))
                          (zip (py_range 0 n) ps)))"
proof -
  define kids where "kids ps = map (\<lambda>(i, p). (p, wait_status (c_end (child i p))))
                          (zip (py_range 0 n) ps)" for ps
  have "forks_succeed (length (py_range 0 n)) w"
    using fk by (simp add: length_py_range)
  from spawn_loop_succeeds [OF this, of child "[]"] obtain ps w1 where
    sp: "spawn_loop child (py_range 0 n) w [] = Inr (ps, w1)"
      "length ps = length (py_range 0 n)"
      "map Some ps = take (length (py_range 0 n)) (forks w)"
      "procs w1 = procs w @ kids ps"
      "self_pid w1 = self_pid w" "trace w1 = trace w @ map EvFork ps"
      "sigchld_ignored w1 = sigchld_ignored w"
      "files w1 = files_after child (zip (py_range 0 n) ps) (files w)"
    unfolding kids_def by auto
  have "\<forall>z \<in> set (kids ps). terminated z"
    using fin by (auto simp: kids_def terminated_def)
  then have "filter terminated (kids ps) = kids ps"
    by simp
  moreover have "length (kids ps) = length ps"
    using sp(2) by (simp add: kids_def)
  ultimately have "length ps \<le> length (filter terminated (procs w1))"
    by (simp add: sp(4))
  moreover have "\<not> sigchld_ignored w1"
    using dfl sp(7) by simp
  ultimately obtain zs w2 where
    rp: "reap_loop line ps w1 [] = Returns (map (\<lambda>z. (fst z, the (snd z))) zs, w2)"
      "length zs = length ps" "mset (procs w1) = mset zs + mset (procs w2)"
      "self_pid w2 = self_pid w1" "files w2 = files w1"
      "trace w2 = trace w1 @
         concat (map (\<lambda>z. [EvWait (fst z) (the (snd z)),
                            EvPrint (line (self_pid w1) (fst z) (the (snd z)))]) zs)"
    using reap_loop_returns [of ps w1 line "[]"] by auto
  have ms: "mset zs = mset (kids ps)" if "procs w = []"
  proof -
    have "length zs = length (procs w1)"
      using rp(2) that \<open>length (kids ps) = length ps\<close> by (simp add: sp(4))
    with rp(3) have "mset zs = mset (procs w1)"
      by (rule reaped_all)
    then show ?thesis
      using that by (simp add: sp(4))
  qed
  show ?thesis
    using sp(1) rp(1) sp(2,3) rp(2) rp(4,5) sp(5) rp(6) sp(6) sp(8) ms
    unfolding kids_def length_py_range
    by (intro exI [of _ ps] exI [of _ w1] exI [of _ zs] exI [of _ w2]) simp
qed

lemma mset_map_cong:
  "mset xs = mset ys \<Longrightarrow> mset (map f xs) = mset (map f ys)"
  by (metis mset_map)

subsection \<open>Task 1\<close>

text \<open>
  With SIGCHLD ignored the two children of the sample process are discarded as they
  terminate, and the parent's first \<^verbatim>\<open>os.wait\<close> raises: no record is reaped.
\<close>

lemma task1_sigchld_ignored:
  "task1_create_children 2 (demo_world\<lparr>sigchld_ignored := True\<rparr>) = Raises ChildProcessError"
  by (simp add: task1_create_children_def demo_world_def say_def py_range_def upto.simps
      os_fork_def task1_child_def os_wait_def terminated_def Let_def)

text \<open>
  C1. For every \<open>n \<ge> 0\<close>, when the \<open>n\<close> forks succeed and SIGCHLD has its default
  handling (terminated children stay until they are reaped),
  \<^verbatim>\<open>task1_create_children\<close> returns with \<open>n\<close> child handles and \<open>n\<close> reaped
  \<open>(pid, status)\<close> records, whatever the order \<open>order\<close> in which the operating system
  delivers the terminated children. The trace shows one \<^verbatim>\<open>os.wait\<close> for each record,
  after the \<open>n\<close> forks. When the caller had no other children, the records are the
  children, each once, with status 0.
\<close>

theorem task1_reaps_every_child:
  assumes n: "0 \<le> n" and fk: "forks_succeed (nat n) w" and dfl: "\<not> sigchld_ignored w"
  shows "\<exists>children recs w'.
     task1_create_children n (w\<lparr>picks := order\<rparr>) = Returns (children, recs, w') \<and>
     int (length children) = n \<and> length recs = length children \<and>
     map Some children = take (nat n) (forks w) \<and>
     trace w' = trace w @ [EvPrint (ParentStarting (self_pid w) n)] @ map EvFork children @
        concat (map (\<lambda>r. [EvWait (fst r) (snd r),
                           EvPrint (ParentReaped (self_pid w) (fst r) (snd r))]) recs) @
        [EvPrint (AllReaped (self_pid w))] \<and>
     (procs w = [] \<longrightarrow> mset recs = mset (map (\<lambda>p. (p, 0)) children))"
proof -
  define w0 where "w0 = say (ParentStarting (self_pid w) n) (w\<lparr>picks := order\<rparr>)"
  define child where "child = task1_child (self_pid w)"
  have w0: "forks w0 = forks w" "procs w0 = procs w" "self_pid w0 = self_pid w"
    "trace w0 = trace w @ [EvPrint (ParentStarting (self_pid w) n)]"
    "sigchld_ignored w0 = sigchld_ignored w"
    by (simp_all add: w0_def say_def)
  have st: "wait_status (c_end (child i p)) = Some 0" for i p
    by (simp add: child_def task1_child_def)
  have "forks_succeed (nat n) w0" "\<not> sigchld_ignored w0"
    using fk dfl w0(1,5) by (simp_all add: forks_succeed_def)
  from spawn_then_reap [OF this, of child ParentReaped] obtain ps w1 zs w2 where
    sr: "spawn_loop child (py_range 0 n) w0 [] = Inr (ps, w1)"
      "reap_loop ParentReaped ps w1 [] = Returns (map (\<lambda>z. (fst z, the (snd z))) zs, w2)"
      "length ps = nat n" "length zs = nat n"
      "map Some ps = take (nat n) (forks w0)"
      "self_pid w2 = self_pid w0"
      "trace w2 = trace w0 @ map EvFork ps @
        concat (map (\<lambda>z. [EvWait (fst z) (the (snd z)),
                           EvPrint (ParentReaped (self_pid w0) (fst z) (the (snd z)))]) zs)"
      "procs w0 = [] \<longrightarrow>
        mset zs = mset (map (\<lambda>(i, p). (p, wait_status (c_end (child i p))))
                          (zip (py_range 0 n) ps))"
    using st by auto
  define recs where "recs = map (\<lambda>z. (fst z, the (snd z))) zs"
  define w' where "w' = say (AllReaped (self_pid w2)) w2"
  have run: "task1_create_children n (w\<lparr>picks := order\<rparr>) = Returns (ps, recs, w')"
    using sr(1,2)
    by (simp add: task1_create_children_def Let_def w0_def [symmetric] child_def [symmetric]
        recs_def w'_def)
  have len: "int (length ps) = n" "length recs = length ps"
    using n sr(3,4) by (simp_all add: recs_def)
  have tk: "map Some ps = take (nat n) (forks w)"
    using sr(5) by (simp add: w0)
  have tr: "trace w' = trace w @ [EvPrint (ParentStarting (self_pid w) n)] @ map EvFork ps @
        concat (map (\<lambda>r. [EvWait (fst r) (snd r),
                           EvPrint (ParentReaped (self_pid w) (fst r) (snd r))]) recs) @
        [EvPrint (AllReaped (self_pid w))]"
    by (simp add: w'_def say_def sr(6,7) w0 recs_def comp_def)
  have ms: "mset recs = mset (map (\<lambda>p. (p, 0)) ps)" if "procs w = []"
  proof -
    have "mset zs = mset (map (\<lambda>p. (p, Some 0)) ps)"
      using sr(8) that sr(3) by (simp add: w0 st map_zip_snd length_py_range)
    from mset_map_cong [OF this, of "\<lambda>z. (fst z, the (snd z))"] show ?thesis
      by (simp add: recs_def comp_def)
  qed
  show ?thesis
    using run len tk tr ms by blast
qed

theorem task1_reaps_every_child_witness:
  "(0::int) \<le> 2 \<and> forks_succeed (nat 2) demo_world \<and> \<not> sigchld_ignored demo_world \<and>
   task1_create_children 2 (demo_world\<lparr>picks := [1, 0]\<rparr>) =
     Returns ([101, 102], [(102, 0), (101, 0)],
       demo_world\<lparr>forks := [Some 103], picks := [],
         trace := [EvPrint (ParentStarting 100 2), EvFork 101, EvFork 102,
                   EvWait 102 0, EvPrint (ParentReaped 100 102 0),
                   EvWait 101 0, EvPrint (ParentReaped 100 101 0),
                   EvPrint (AllReaped 100)]\<rparr>)"
proof -
  have h: "(0::int) \<le> 2" "forks_succeed (nat 2) demo_world" "\<not> sigchld_ignored demo_world"
    by (simp_all add: forks_succeed_def demo_world_def)
  have ev: "task1_create_children 2 (demo_world\<lparr>picks := [1, 0]\<rparr>) =
     Returns ([101, 102], [(102, 0), (101, 0)],
       demo_world\<lparr>forks := [Some 103], picks := [],
         trace := [EvPrint (ParentStarting 100 2), EvFork 101, EvFork 102,
                   EvWait 102 0, EvPrint (ParentReaped 100 102 0),
                   EvWait 101 0, EvPrint (ParentReaped 100 101 0),
                   EvPrint (AllReaped 100)]\<rparr>)"
    by (simp add: task1_create_children_def demo_world_def say_def py_range_def upto.simps
        os_fork_def task1_child_def os_wait_def terminated_def Let_def)
  from task1_reaps_every_child [OF h, of "[1, 0]"] show ?thesis
    using h ev by simp
qed

subsection \<open>Task 2\<close>



text \<open>
  C10. The handler around \<^verbatim>\<open>os.execvp(args[0], args)\<close> catches FileNotFoundError only. For
  a command that is empty or all whitespace, \<^verbatim>\<open>cmd.split()\<close> is the empty list and
  \<^verbatim>\<open>args[0]\<close> raises IndexError, which nothing catches: the child prints no
  \<^verbatim>\<open>exec failed\<close> line and does not leave through \<^verbatim>\<open>os._exit(1)\<close>.
\<close>

theorem task2_blank_cmd:
  "(\<forall>c \<in> set cmd. py_isspace c) \<longrightarrow>
     split_ws cmd = [] \<and>
     c_end (task2_child execvp run cmd True ppid i pid) = Uncaught IndexError \<and>
     c_end (task2_child execvp run cmd True ppid i pid) \<noteq> Exit 1 \<and>
     c_err (task2_child execvp run cmd True ppid i pid) = []"
  by (simp add: task2_child_def split_ws_def split_ws_from_blank)

theorem task2_blank_cmd_witness:
  "task2_child no_such_program run_ok [] True 100 0 101 =
     \<lparr>c_out = [ChildExecuting 101 100 []], c_err = [], c_nice = None, c_file = None,
       c_end = Uncaught IndexError\<rparr> \<and>
   task2_child no_such_program run_ok ''  '' True 100 0 101 =
     \<lparr>c_out = [ChildExecuting 101 100 ''  ''], c_err = [], c_nice = None, c_file = None,
       c_end = Uncaught IndexError\<rparr>"
  using task2_blank_cmd [of "[]" no_such_program run_ok 100 0 101]
    task2_blank_cmd [of "''  ''" no_such_program run_ok 100 0 101]
  by (simp add: task2_child_def split_ws_def py_isspace_def)

subsection \<open>Task 3\<close>

text \<open>
  C3, as the specification states it, does not hold: \<^verbatim>\<open>task3_zombie_or_orphan\<close> forks
  before it looks at the mode. With the mode \<^verbatim>\<open>bogus\<close> the parent's trace has the fork of
  child 101 before the line \<^verbatim>\<open>[PARENT] unknown mode\<close>, and the child is in the process table.
\<close>

theorem task3_unknown_mode_forks:
  "''bogus'' \<noteq> ''zombie'' \<and> ''bogus'' \<noteq> ''orphan'' \<and>
   fst (task3_zombie_or_orphan ''bogus'' (adopted_after 0 100) demo_world) = Exits 1 \<and>
   EvFork 101 \<in> set (trace (snd (task3_zombie_or_orphan ''bogus'' (adopted_after 0 100)
                                   demo_world))) \<and>
   trace (snd (task3_zombie_or_orphan ''bogus'' (adopted_after 0 100) demo_world)) =
     [EvPrint (Task3Banner 100 ''bogus''), EvFork 101, EvPrint ParentUnknownMode] \<and>
   procs (snd (task3_zombie_or_orphan ''bogus'' (adopted_after 0 100) demo_world)) =
     [(101, Some 256)]"
  by (simp add: task3_zombie_or_orphan_def demo_world_def say_def os_fork_def task3_child_def
      Let_def)

text \<open>
  C3, amended. For a mode that is neither \<^verbatim>\<open>zombie\<close> nor \<^verbatim>\<open>orphan\<close>, the process is
  duplicated once and the mode is rejected afterwards on both sides: the child prints
  \<^verbatim>\<open>[CHILD] unknown mode\<close> and leaves with code 1, the parent prints
  \<^verbatim>\<open>[PARENT] unknown mode\<close> and leaves with code 1, without sleeping or waiting. When the
  fork itself fails, the call raises OSError.
\<close>

theorem task3_unknown_mode:
  assumes "mode \<noteq> ''zombie''" "mode \<noteq> ''orphan''"
  shows "task3_child mode getppid pid =
           \<lparr>c_out = [ChildUnknownMode], c_err = [], c_nice = None, c_file = None, c_end = Exit 1\<rparr> \<and>
         (\<forall>p rest. forks w = Some p # rest \<longrightarrow>
            task3_zombie_or_orphan mode getppid w =
              (Exits 1,
               w\<lparr>forks := rest, procs := procs w @ [(p, Some 256)],
                 trace := trace w @ [EvPrint (Task3Banner (self_pid w) mode), EvFork p,
                                     EvPrint ParentUnknownMode]\<rparr>)) \<and>
         ((forks w = [] \<or> (\<exists>rest. forks w = None # rest)) \<longrightarrow>
            fst (task3_zombie_or_orphan mode getppid w) = Raises OSError)"
  using assms
  by (auto simp: task3_zombie_or_orphan_def task3_child_def say_def os_fork_def Let_def)

theorem task3_unknown_mode_witness:
  "''bogus'' \<noteq> ''zombie'' \<and> ''bogus'' \<noteq> ''orphan'' \<and>
   forks demo_world = Some 101 # [Some 102, Some 103] \<and>
   task3_zombie_or_orphan ''bogus'' (adopted_after 0 100) demo_world =
     (Exits 1,
      demo_world\<lparr>forks := [Some 102, Some 103], procs := [(101, Some 256)],
        trace := [EvPrint (Task3Banner 100 ''bogus''), EvFork 101,
                  EvPrint ParentUnknownMode]\<rparr>)"
proof -
  have h: "''bogus'' \<noteq> ''zombie''" "''bogus'' \<noteq> ''orphan''"
    by simp_all
  have f: "forks demo_world = Some 101 # [Some 102, Some 103]"
    by (simp add: demo_world_def)
  from task3_unknown_mode [OF h, of "adopted_after 0 100" 0 demo_world] f
  have "task3_zombie_or_orphan ''bogus'' (adopted_after 0 100) demo_world =
     (Exits 1,
      demo_world\<lparr>forks := [Some 102, Some 103],
        procs := procs demo_world @ [(101, Some 256)],
        trace := trace demo_world @ [EvPrint (Task3Banner (self_pid demo_world) ''bogus''),
                  EvFork 101, EvPrint ParentUnknownMode]\<rparr>)"
    by blast
  then show ?thesis
    using h f by (simp add: demo_world_def)
qed

subsection \<open>Task 5: the child\<close>

lemma task5_child_terminates: "wait_status (c_end (task5_child lib env i pid)) \<noteq> None"
  by (simp add: task5_child_def cpu_work_closed_form Let_def split: write_result.splits)

lemma task5_child_file:
  "c_file (task5_child lib env i pid) =
     (case wr env of
        Written \<Rightarrow> Some (format_record lib pid (nice_offset i) (t_end env - t_start env))
      | OpenFails \<Rightarrow> None
      | WriteFails \<Rightarrow> Some [])"
  by (simp add: task5_child_def cpu_work_closed_form Let_def split: write_result.splits)

lemma parse_entry_empty: "parse_entry lib (strip []) = None"
  by (simp add: parse_entry_def strip_def)

lemma task5_child_file_nonneg:
  assumes "roundtrip_nonneg lib" "t_start env \<le> t_end env"
    and "c_file (task5_child lib env i pid) = Some txt"
  shows "nonneg_file lib (Some (Content txt))"
proof (cases "wr env")
  case Written
  then have "txt = format_record lib pid (nice_offset i) (t_end env - t_start env)"
    using assms(3) by (simp add: task5_child_file)
  moreover have d: "0 \<le> t_end env - t_start env"
    using assms(2) by simp
  have "\<forall>e. parse_entry lib (strip (format_record lib pid (nice_offset i)
              (t_end env - t_start env))) = Some e \<longrightarrow> 0 \<le> duration_of e"
    using assms(1) d unfolding roundtrip_nonneg_def by blast
  ultimately show ?thesis
    by (simp add: nonneg_file_def)
next
  case OpenFails
  then show ?thesis
    using assms(3) by (simp add: task5_child_file)
next
  case WriteFails
  then have "txt = []"
    using assms(3) by (simp add: task5_child_file)
  then show ?thesis
    by (simp add: nonneg_file_def parse_entry_empty)
qed

subsection \<open>Task 5: the result files\<close>

lemma files_after_invariant:
  assumes "\<forall>q \<in> S. Q (fs q)"
    and "\<And>i p s. c_file (child i p) = Some s \<Longrightarrow> Q (Some (Content s))"
  shows "\<forall>q \<in> S. Q (files_after child ips fs q)"
  using assms(1)
proof (induction ips arbitrary: fs)
  case Nil
  then show ?case by (simp add: files_after_def)
next
  case (Cons ip ips)
  define fs1 where "fs1 = (case c_file (child (fst ip) (snd ip)) of
                             None \<Rightarrow> fs
                           | Some s \<Rightarrow> fs(snd ip \<mapsto> Content s))"
  have "\<forall>q \<in> S. Q (fs1 q)"
    using Cons.prems assms(2) [of "fst ip" "snd ip"]
    by (auto simp: fs1_def split: option.splits)
  from Cons.IH [OF this] show ?case
    by (simp add: files_after_def fs1_def)
qed



lemma fresh_channel_files:
  assumes "fresh_channel k w" "map Some ps = take k (forks w)" "q \<in> set ps"
  shows "files w q = None"
proof -
  have "Some q \<in> set (map Some ps)"
    using assms(3) by simp
  then have "Some q \<in> set (take k (forks w))"
    using assms(2) by simp
  then show ?thesis
    using assms(1) unfolding fresh_channel_def by blast
qed

subsection \<open>Task 5: the read loop and the table\<close>

lemma read_results_nonneg:
  "\<forall>p \<in> set pids. nonneg_file lib (files w p) \<Longrightarrow>
     \<exists>es bad w'. read_results lib unlink pids w entries = Inr (entries @ es, w') \<and>
       length es + length bad \<le> length pids \<and> set bad \<subseteq> set pids \<and>
       (\<forall>e \<in> set es. 0 \<le> duration_of e) \<and>
       trace w' = trace w @ map (\<lambda>p. EvPrint (MalformedResult p)) bad"
proof (induction pids arbitrary: w entries)
  case Nil
  then show ?case by simp
next
  case (Cons pid pids)
  show ?case
  proof (cases "files w pid")
    case None
    have "\<forall>p \<in> set pids. nonneg_file lib (files w p)"
      using Cons.prems by simp
    from Cons.IH [OF this, of entries] obtain es bad w' where
      "read_results lib unlink pids w entries = Inr (entries @ es, w')"
      "length es + length bad \<le> length pids" "set bad \<subseteq> set pids"
      "\<forall>e \<in> set es. 0 \<le> duration_of e"
      "trace w' = trace w @ map (\<lambda>p. EvPrint (MalformedResult p)) bad"
      by blast
    then show ?thesis
      using None by (intro exI [of _ es] exI [of _ bad] exI [of _ w']) auto
  next
    case (Some f)
    from Cons.prems Some obtain c where c: "f = Content c"
      and ok: "\<forall>e. parse_entry lib (strip c) = Some e \<longrightarrow> 0 \<le> duration_of e"
      by (cases f) (auto simp: nonneg_file_def)
    define w1 where "w1 = (case parse_entry lib (strip c) of
                             None \<Rightarrow> say (MalformedResult pid) w
                           | Some e \<Rightarrow> w)"
    define entries1 where "entries1 = (case parse_entry lib (strip c) of
                             None \<Rightarrow> entries
                           | Some e \<Rightarrow> entries @ [e])"
    define w2 where "w2 = (if unlink pid then w1\<lparr>files := (files w1)(pid := None)\<rparr> else w1)"
    have step: "read_results lib unlink (pid # pids) w entries =
                  read_results lib unlink pids w2 entries1"
      using Some c by (simp add: Let_def w1_def entries1_def w2_def)
    have f1: "files w1 = files w"
      by (simp add: w1_def say_def split: option.splits)
    have t2: "trace w2 = trace w1"
      by (simp add: w2_def)
    have "\<forall>p \<in> set pids. nonneg_file lib (files w2 p)"
      using Cons.prems by (auto simp: w2_def f1 nonneg_file_def)
    from Cons.IH [OF this, of entries1] obtain es bad w' where
      ih: "read_results lib unlink pids w2 entries1 = Inr (entries1 @ es, w')"
        "length es + length bad \<le> length pids" "set bad \<subseteq> set pids"
        "\<forall>e \<in> set es. 0 \<le> duration_of e"
        "trace w' = trace w2 @ map (\<lambda>p. EvPrint (MalformedResult p)) bad"
      by blast
    show ?thesis
    proof (cases "parse_entry lib (strip c)")
      case None
      then have "entries1 = entries" "trace w1 = trace w @ [EvPrint (MalformedResult pid)]"
        by (simp_all add: entries1_def w1_def say_def)
      then show ?thesis
        using step ih t2
        by (intro exI [of _ es] exI [of _ "pid # bad"] exI [of _ w']) auto
    next
      case (Some e)
      then have "entries1 = entries @ [e]" "0 \<le> duration_of e" "trace w1 = trace w"
        using ok by (simp_all add: entries1_def w1_def)
      then show ?thesis
        using step ih t2
        by (intro exI [of _ "e # es"] exI [of _ bad] exI [of _ w']) auto
    qed
  qed
qed


lemma print_table_trace:
  "trace (print_table es w) = trace w @ map table_line es"
  by (induction es w rule: print_table.induct) (simp_all add: say_def table_line_def)

lemma task5_unfold:
  assumes "spawn_loop (\<lambda>i. task5_child lib (envs i) i) (py_range 0 n)
             (say (Task5Spawning (self_pid w) n) w) [] = Inr (ps, w1)"
    and "reap_loop (\<lambda>self. Task5Reaped) ps w1 [] = Returns (recs, w2)"
    and "read_results lib unlink ps (say ResultsHeader w2) [] = Inr (es, w3)"
  shows "\<exists>w'. task5_prioritization lib envs unlink n w =
           Returns (ps, recs, es, sort_key duration_of es, w') \<and>
         trace w' = trace w3 @ [EvPrint TableHeader] @
           map table_line (sort_key duration_of es) @ [EvPrint Interpretation]"
  using assms
  by (simp add: task5_prioritization_def Let_def say_def print_table_trace)




subsection \<open>Task 5: sample runs\<close>

lemma demo_records:
  "format_record demo_lib 101 0 (1 / 2) = ''101,0,0.500000\<newline>''"
  "format_record demo_lib 102 5 (1 / 4) = ''102,5,0.250000\<newline>''"
  by (simp_all add: format_record_def demo_lib_def demo_fmt6_def demo_str_of_int_def dec3_def
      frac6_def digit_char_def Let_def)

lemma demo_parses:
  "parse_entry demo_lib (strip (''101,0,0.500000\<newline>'')) = Some (101, 0, 1 / 2)"
  "parse_entry demo_lib (strip (''102,5,0.250000\<newline>'')) = Some (102, 5, 1 / 4)"
  "parse_entry demo_lib (strip []) = None"
  by (simp_all add: strip_def py_isspace_def parse_entry_def demo_lib_def demo_int_of_str_def
      demo_float_of_str_def is_digit_def dec_value_def digit_val_def)

lemma demo_children:
  "task5_child demo_lib (demo_envs 0) 0 101 =
     \<lparr>c_out = [ChildDone 101 0 (1 / 2)], c_err = [], c_nice = Some 0,
       c_file = Some (''101,0,0.500000\<newline>''), c_end = Exit 0\<rparr>"
  "task5_child demo_lib (demo_envs 1) 1 102 =
     \<lparr>c_out = [ChildDone 102 5 (1 / 4)], c_err = [], c_nice = Some 5,
       c_file = Some (''102,5,0.250000\<newline>''), c_end = Exit 0\<rparr>"
  "task5_child demo_lib (demo_envs 2) 2 103 =
     \<lparr>c_out = [ChildDone 103 10 (1 / 4)], c_err = [], c_nice = Some 10,
       c_file = None, c_end = Uncaught OSError\<rparr>"
  by (simp_all add: task5_child_def cpu_work_closed_form demo_envs_def nice_offset_def Let_def
      demo_records)

lemma demo_run:
  "task5_prioritization demo_lib demo_envs unlink_ok 3 (demo_world\<lparr>picks := [2, 0, 0]\<rparr>) =
     Returns ([101, 102, 103], [(103, 256), (101, 0), (102, 0)],
       [(101, 0, 1 / 2), (102, 5, 1 / 4)], [(102, 5, 1 / 4), (101, 0, 1 / 2)],
       \<lparr>self_pid = 100, sigchld_ignored = False, procs = [], forks = [], picks = [],
         files = Map.empty,
         trace = [EvPrint (Task5Spawning 100 3), EvFork 101, EvFork 102, EvFork 103,
                  EvWait 103 256, EvPrint (Task5Reaped 103 256),
                  EvWait 101 0, EvPrint (Task5Reaped 101 0),
                  EvWait 102 0, EvPrint (Task5Reaped 102 0),
                  EvPrint ResultsHeader, EvPrint TableHeader,
                  EvPrint (TableRow 102 5 (1 / 4)), EvPrint (TableRow 101 0 (1 / 2)),
                  EvPrint Interpretation]\<rparr>)"
  by (simp add: task5_prioritization_def demo_world_def say_def py_range_def upto.simps
      os_fork_def demo_children os_wait_def terminated_def Let_def demo_parses unlink_ok_def
      duration_of_def fun_eq_iff)



lemma demo_roundtrip: "roundtrip_nonneg demo_lib"
proof -
  have "0 \<le> x" if "demo_float_of_str s = Some x" for s x
    using that
    by (auto simp: demo_float_of_str_def split: list.splits if_splits)
  then show ?thesis
    unfolding roundtrip_nonneg_def
    by (auto simp: parse_entry_def demo_lib_def duration_of_def
        split: list.splits option.splits)
qed

subsection \<open>Task 5: the ranking\<close>

text \<open>
  C2. For a priority experiment with \<open>n\<close> children whose forks succeed, with the default
  handling of SIGCHLD, where the result files found under the children's pids are the
  ones the children write, the clock is monotonic and a non-negative duration written
  with six decimals is not read back as a negative one: \<^verbatim>\<open>task5_prioritization\<close> returns,
  the ranking table has at most \<open>n\<close> entries, every entry has a non-negative duration,
  and the table is the list of entries sorted ascending by duration, entries of equal
  duration keeping their insertion order. The lines printed after the table header are
  the lines of this table, in this order.
\<close>

theorem task5_ranking:
  assumes n: "0 \<le> n" and fk: "forks_succeed (nat n) w" and dfl: "\<not> sigchld_ignored w"
    and fr: "fresh_channel (nat n) w"
    and mono: "monotonic_clock envs" and rt: "roundtrip_nonneg lib"
  shows "\<exists>children recs entries ranked w'.
     task5_prioritization lib envs unlink n (w\<lparr>picks := order\<rparr>)
       = Returns (children, recs, entries, ranked, w') \<and>
     int (length children) = n \<and> int (length ranked) \<le> n \<and>
     (\<forall>e \<in> set ranked. 0 \<le> duration_of e) \<and>
     sorted (map duration_of ranked) \<and> mset ranked = mset entries \<and>
     (\<forall>d. filter (\<lambda>e. duration_of e = d) ranked = filter (\<lambda>e. duration_of e = d) entries) \<and>
     (\<exists>bad. set bad \<subseteq> set children \<and>
        trace w' = trace w @ [EvPrint (Task5Spawning (self_pid w) n)] @ map EvFork children @
          concat (map (\<lambda>r. [EvWait (fst r) (snd r), EvPrint (Task5Reaped (fst r) (snd r))]) recs) @
          [EvPrint ResultsHeader] @
          map (\<lambda>p. EvPrint (MalformedResult p)) bad @ [EvPrint TableHeader] @
          map table_line ranked @ [EvPrint Interpretation])"
proof -
  define wo where "wo = w\<lparr>picks := order\<rparr>"
  define w0 where "w0 = say (Task5Spawning (self_pid wo) n) wo"
  define child where "child = (\<lambda>i. task5_child lib (envs i) i)"
  have w0: "forks w0 = forks w" "files w0 = files w" "self_pid wo = self_pid w"
    "sigchld_ignored w0 = sigchld_ignored w" "self_pid w0 = self_pid w"
    "trace w0 = trace w @ [EvPrint (Task5Spawning (self_pid w) n)]"
    by (simp_all add: w0_def wo_def say_def)
  have "forks_succeed (nat n) w0" "\<not> sigchld_ignored w0"
    using fk dfl w0(1,4) by (simp_all add: forks_succeed_def)
  from spawn_then_reap [OF this, of child "\<lambda>self. Task5Reaped"] obtain ps w1 zs w2 where
    sr: "spawn_loop child (py_range 0 n) w0 [] = Inr (ps, w1)"
      "reap_loop (\<lambda>self. Task5Reaped) ps w1 [] =
         Returns (map (\<lambda>z. (fst z, the (snd z))) zs, w2)"
      "length ps = nat n" "map Some ps = take (nat n) (forks w0)"
      "files w2 = files_after child (zip (py_range 0 n) ps) (files w0)"
      "trace w2 = trace w0 @ map EvFork ps @
        concat (map (\<lambda>z. [EvWait (fst z) (the (snd z)),
                           EvPrint (Task5Reaped (fst z) (the (snd z)))]) zs)"
    using task5_child_terminates by (auto simp: child_def)
  define recs where "recs = map (\<lambda>z. (fst z, the (snd z))) zs"
  have "\<forall>q \<in> set ps. nonneg_file lib (files w0 q)"
    using fresh_channel_files [OF fr] sr(4) by (simp add: w0 nonneg_file_def)
  moreover have "nonneg_file lib (Some (Content s))"
    if "c_file (child i p) = Some s" for i p s
  proof -
    have "t_start (envs i) \<le> t_end (envs i)"
      using mono by (simp add: monotonic_clock_def)
    from task5_child_file_nonneg [OF rt this] that show ?thesis
      by (simp add: child_def)
  qed
  ultimately have "\<forall>q \<in> set ps. nonneg_file lib (files w2 q)"
    unfolding sr(5) by (rule files_after_invariant)
  then have "\<forall>q \<in> set ps. nonneg_file lib (files (say ResultsHeader w2) q)"
    by (simp add: say_def)
  from read_results_nonneg [OF this, of unlink "[]"] obtain es bad w3 where
    rd: "read_results lib unlink ps (say ResultsHeader w2) [] = Inr (es, w3)"
      "length es + length bad \<le> length ps" "set bad \<subseteq> set ps"
      "\<forall>e \<in> set es. 0 \<le> duration_of e"
      "trace w3 = trace (say ResultsHeader w2) @ map (\<lambda>p. EvPrint (MalformedResult p)) bad"
    by auto
  define ranked where "ranked = sort_key duration_of es"
  from task5_unfold [of lib envs n wo ps w1 recs w2 unlink es w3] sr(1,2) rd(1)
  obtain w' where
    run: "task5_prioritization lib envs unlink n wo = Returns (ps, recs, es, ranked, w')" and
    tr': "trace w' = trace w3 @ [EvPrint TableHeader] @ map table_line ranked @
            [EvPrint Interpretation]"
    by (auto simp: w0_def child_def recs_def ranked_def)
  have len: "int (length ps) = n" "int (length ranked) \<le> n"
    using n sr(3) rd(2) by (simp_all add: ranked_def)
  have nn: "\<forall>e \<in> set ranked. 0 \<le> duration_of e"
    using rd(4) by (simp add: ranked_def)
  have srt: "sorted (map duration_of ranked)" "mset ranked = mset es"
    by (simp_all add: ranked_def)
  have stab: "\<forall>d. filter (\<lambda>e. duration_of e = d) ranked = filter (\<lambda>e. duration_of e = d) es"
    by (simp add: ranked_def sort_key_stable)
  have tr: "trace w' = trace w @ [EvPrint (Task5Spawning (self_pid w) n)] @ map EvFork ps @
          concat (map (\<lambda>r. [EvWait (fst r) (snd r), EvPrint (Task5Reaped (fst r) (snd r))]) recs) @
          [EvPrint ResultsHeader] @
          map (\<lambda>p. EvPrint (MalformedResult p)) bad @ [EvPrint TableHeader] @
          map table_line ranked @ [EvPrint Interpretation]"
    by (simp add: tr' rd(5) say_def sr(6) w0 recs_def comp_def)
  show ?thesis
    using run len nn srt stab tr rd(3) unfolding wo_def by blast
qed

theorem task5_ranking_witness:
  "(0::int) \<le> 3 \<and> forks_succeed (nat 3) demo_world \<and> \<not> sigchld_ignored demo_world \<and>
   fresh_channel (nat 3) demo_world \<and>
   monotonic_clock demo_envs \<and> roundtrip_nonneg demo_lib \<and>
   task5_prioritization demo_lib demo_envs unlink_ok 3 (demo_world\<lparr>picks := [2, 0, 0]\<rparr>) =
     Returns ([101, 102, 103], [(103, 256), (101, 0), (102, 0)],
       [(101, 0, 1 / 2), (102, 5, 1 / 4)], [(102, 5, 1 / 4), (101, 0, 1 / 2)],
       \<lparr>self_pid = 100, sigchld_ignored = False, procs = [], forks = [], picks = [],
         files = Map.empty,
         trace = [EvPrint (Task5Spawning 100 3), EvFork 101, EvFork 102, EvFork 103,
                  EvWait 103 256, EvPrint (Task5Reaped 103 256),
                  EvWait 101 0, EvPrint (Task5Reaped 101 0),
                  EvWait 102 0, EvPrint (Task5Reaped 102 0),
                  EvPrint ResultsHeader, EvPrint TableHeader,
                  EvPrint (TableRow 102 5 (1 / 4)), EvPrint (TableRow 101 0 (1 / 2)),
                  EvPrint Interpretation]\<rparr>) \<and>
   sorted (map duration_of [(102, 5, 1 / 4), (101, 0, 1 / 2)]) \<and>
   map table_line [(102, 5, 1 / 4), (101, 0, 1 / 2)] =
     [EvPrint (TableRow 102 5 (1 / 4)), EvPrint (TableRow 101 0 (1 / 2))]"
proof -
  have h: "(0::int) \<le> 3" "forks_succeed (nat 3) demo_world" "\<not> sigchld_ignored demo_world"
    "fresh_channel (nat 3) demo_world" "monotonic_clock demo_envs"
    by (simp_all add: forks_succeed_def fresh_channel_def demo_world_def monotonic_clock_def
        demo_envs_def)
  note h = h demo_roundtrip
  from task5_ranking [OF h, of unlink_ok "[2, 0, 0]"] show ?thesis
    using h demo_run by (auto simp: table_line_def)
qed



subsection \<open>Task 5: absent and malformed records\<close>




end
